theory Spec2Isabelle
  imports Main "HOL-Library.Sublist"
begin

section \<open>Python objects, exceptions and the host runtime\<close>

text \<open>
  The repository (\<^verbatim>\<open>asyncify\<close>) is a handful of decorators over Python callables.
  Exceptions are values: every function of the source that can raise returns
  \<open>error + 'a\<close>, with \<open>Inl\<close> the exception.
\<close>

datatype error =
    TypeError
  | RuntimeError
  | ValueError
  | AttributeError
  | AssertionError
  | OtherError string

text \<open>
  What a call can see and change. The event loop running in the current thread, if any
  (what \<^verbatim>\<open>asyncio.get_running_loop()\<close> looks at), is read by a call and is the same
  after it as before: \<open>running\<close>. Everything else the callables of the application read
  and write is the state \<open>'u\<close>, passed through every call.
\<close>

type_synonym running = "nat option"

text \<open>
  Python values. \<open>PObject i b\<close> is an instance with identity \<open>i\<close> whose truth value
  (\<^verbatim>\<open>__bool__\<close>) is \<open>b\<close>. \<open>PCoro k\<close> is an awaitable: \<open>k r u\<close> is what driving it to
  completion does, in a thread whose running loop is \<open>r\<close> and from the state \<open>u\<close>: the
  value it resolves to or the exception it fails with, and the state after.
\<close>

datatype 'u pyval =
    PNone
  | PBool bool
  | PInt int
  | PStr string
  | PObject nat bool
  | PCoro "running \<Rightarrow> 'u \<Rightarrow> (error + 'u pyval) \<times> 'u"

type_synonym 'u outcome = "(error + 'u pyval) \<times> 'u"

type_synonym 'u behaviour = "running \<Rightarrow> 'u \<Rightarrow> 'u outcome"

text \<open>Positional and keyword arguments: \<^verbatim>\<open>*args, **kwargs\<close>.\<close>

type_synonym 'u arguments = "'u pyval list \<times> (string \<times> 'u pyval) list"

text \<open>The types the source tests for with \<^verbatim>\<open>isinstance\<close> and \<^verbatim>\<open>inspect.isfunction\<close>.\<close>

datatype pytype =
    FunctionType
  | ClassMethodType
  | StaticMethodType
  | MethodType
  | BuiltinFunctionType
  | OtherType

text \<open>
  An object as the source observes it: its \<^verbatim>\<open>__name__\<close> (if it has one), its type,
  the answers of \<^verbatim>\<open>callable(obj)\<close> and \<^verbatim>\<open>inspect.iscoroutinefunction(obj)\<close>, the
  \<^verbatim>\<open>_asyncify_ignore\<close> attribute (absent reads as \<open>False\<close>), the parameters
  \<^verbatim>\<open>inspect.signature(obj)\<close> reports (\<open>None\<close> when it finds no signature), and what
  calling it does. Calling a coroutine function does nothing but return a \<open>PCoro\<close>.
\<close>

record 'u pyobj =
  py_name :: "string option"
  py_type :: pytype
  is_callable :: bool
  is_coroutinefunction :: bool
  asyncify_ignore :: bool
  parameters :: "string list option"
  call :: "'u arguments \<Rightarrow> 'u behaviour"

definition isfunction :: "'u pyobj \<Rightarrow> bool" where
  "isfunction obj = (py_type obj = FunctionType)"

text \<open>\<^verbatim>\<open>obj(*args, **kwargs)\<close>: an object that is not callable raises \<^verbatim>\<open>TypeError\<close>.\<close>

definition py_call :: "'u pyobj \<Rightarrow> 'u arguments \<Rightarrow> 'u behaviour" where
  "py_call obj args r u = (if is_callable obj then call obj args r u else (Inl TypeError, u))"

text \<open>
  \<^verbatim>\<open>functools.wraps(wrapped)(wrapper)\<close>: the wrapper takes over the name (when the
  wrapped object has one) and the attributes of the wrapped object's \<^verbatim>\<open>__dict__\<close>, and
  \<^verbatim>\<open>inspect.signature\<close> follows \<^verbatim>\<open>__wrapped__\<close>.
\<close>

definition wraps :: "'u pyobj \<Rightarrow> 'u pyobj \<Rightarrow> 'u pyobj" where
  "wraps wrapped wrapper =
     wrapper\<lparr>py_name := (case py_name wrapped of None \<Rightarrow> py_name wrapper | Some n \<Rightarrow> Some n),
             asyncify_ignore := asyncify_ignore wrapped \<or> asyncify_ignore wrapper,
             parameters := parameters wrapped\<rparr>"

subsection \<open>The event loop of the host runtime\<close>

text \<open>
  The scheduler is asyncio's, not the repository's. Its three entry points that
  \<^verbatim>\<open>func.py\<close> calls are modelled after CPython:
  \<^item> \<^verbatim>\<open>asyncio.get_running_loop()\<close> returns the loop running in the current thread and
    raises \<^verbatim>\<open>RuntimeError\<close> when there is none;
  \<^item> \<^verbatim>\<open>loop.run_until_complete(aw)\<close> first checks that no loop is running in the
    current thread (\<^verbatim>\<open>BaseEventLoop._check_running\<close>: \<^verbatim>\<open>RuntimeError\<close> otherwise), then
    wants an awaitable (\<^verbatim>\<open>TypeError\<close> otherwise), drives it to completion with the loop
    running, and returns its result or raises its exception;
  \<^item> \<^verbatim>\<open>await loop.run_in_executor(None, f)\<close> resolves to what \<^verbatim>\<open>f()\<close> returns or raises
    on a worker thread of the default executor, a thread with no running loop (the
    interleaving of threads is not modelled: the call is run as one step).
\<close>

definition get_running_loop :: "running \<Rightarrow> error + nat" where
  "get_running_loop r = (case r of None \<Rightarrow> Inl RuntimeError | Some l \<Rightarrow> Inr l)"

definition run_until_complete :: "nat \<Rightarrow> 'u pyval \<Rightarrow> 'u behaviour" where
  "run_until_complete loop aw r u =
     (if r \<noteq> None then (Inl RuntimeError, u)
      else case aw of
        PCoro k \<Rightarrow> k (Some loop) u
      | _ \<Rightarrow> (Inl TypeError, u))"

definition run_in_executor :: "nat \<Rightarrow> 'u behaviour \<Rightarrow> 'u \<Rightarrow> 'u outcome" where
  "run_in_executor loop new_func u = new_func None u"

text \<open>\<^verbatim>\<open>functools.partial(func, *args, **kwargs)\<close> refuses a first argument that is not callable.\<close>

definition partial :: "'u pyobj \<Rightarrow> 'u arguments \<Rightarrow> error + 'u behaviour" where
  "partial func args = (if is_callable func then Inr (call func args) else Inl TypeError)"

text \<open>\<^verbatim>\<open>await aw\<close> inside a coroutine that runs in a thread whose running loop is \<open>r\<close>.\<close>

definition await :: "'u pyval \<Rightarrow> 'u behaviour" where
  "await aw r u = (case aw of PCoro k \<Rightarrow> k r u | _ \<Rightarrow> (Inl TypeError, u))"

section \<open>func.py: asyncify\_func and syncify\_func\<close>

text \<open>
  The body of the coroutine \<^verbatim>\<open>async_func(*args, **kwargs)\<close> (func.py, lines 62 to 66),
  run when the coroutine is awaited.
\<close>

definition async_func_body :: "'u pyobj \<Rightarrow> 'u arguments \<Rightarrow> 'u behaviour" where
  "async_func_body func args r u =
     (case partial func args of
        Inl e \<Rightarrow> (Inl e, u)
      | Inr new_func \<Rightarrow>
          (case get_running_loop r of
             Inl e \<Rightarrow> (Inl e, u)
           | Inr loop \<Rightarrow> run_in_executor loop new_func u))"

text \<open>The wrapper \<^verbatim>\<open>async_func\<close>: a coroutine function, decorated with \<^verbatim>\<open>functools.wraps(func)\<close>.\<close>

definition async_func :: "'u pyobj \<Rightarrow> 'u pyobj" where
  "async_func func =
     wraps func
       \<lparr>py_name = Some ''async_func'', py_type = FunctionType, is_callable = True,
        is_coroutinefunction = True, asyncify_ignore = False, parameters = None,
        call = (\<lambda>args r u. (Inr (PCoro (async_func_body func args)), u))\<rparr>"

text \<open>func.py, lines 55 to 68.\<close>

definition asyncify_func :: "'u pyobj \<Rightarrow> error + 'u pyobj" where
  "asyncify_func func =
     (if is_coroutinefunction func then Inr func
      else if is_callable func then Inl TypeError
      else Inr (async_func func))"

text \<open>
  The wrapper \<^verbatim>\<open>sync_func\<close> (func.py, lines 109 to 112), a plain function. Python
  evaluates the argument \<^verbatim>\<open>func(*args, **kwargs)\<close> before it enters
  \<^verbatim>\<open>run_until_complete\<close>.
\<close>

definition sync_func_body :: "'u pyobj \<Rightarrow> 'u arguments \<Rightarrow> 'u behaviour" where
  "sync_func_body func args r u =
     (case get_running_loop r of
        Inl e \<Rightarrow> (Inl e, u)
      | Inr loop \<Rightarrow>
          (case py_call func args r u of
             (Inl e, u') \<Rightarrow> (Inl e, u')
           | (Inr aw, u') \<Rightarrow> run_until_complete loop aw r u'))"

definition sync_func :: "'u pyobj \<Rightarrow> 'u pyobj" where
  "sync_func func =
     wraps func
       \<lparr>py_name = Some ''sync_func'', py_type = FunctionType, is_callable = True,
        is_coroutinefunction = False, asyncify_ignore = False, parameters = None,
        call = sync_func_body func\<rparr>"

text \<open>func.py, lines 103 to 114.\<close>

definition syncify_func :: "'u pyobj \<Rightarrow> error + 'u pyobj" where
  "syncify_func func =
     (if isfunction func \<and> \<not> is_coroutinefunction func then Inr func
      else if \<not> is_callable func then Inl TypeError
      else Inr (sync_func func))"

subsection \<open>Objects for the examples\<close>

text \<open>A plain \<^verbatim>\<open>def\<close>, an \<^verbatim>\<open>async def\<close>, a builtin such as \<^verbatim>\<open>len\<close>, and a number.\<close>

definition plain_def :: "string \<Rightarrow> string list \<Rightarrow> ('u arguments \<Rightarrow> 'u behaviour) \<Rightarrow> 'u pyobj" where
  "plain_def n ps body =
     \<lparr>py_name = Some n, py_type = FunctionType, is_callable = True,
      is_coroutinefunction = False, asyncify_ignore = False, parameters = Some ps,
      call = body\<rparr>"

definition async_def :: "string \<Rightarrow> string list \<Rightarrow> ('u arguments \<Rightarrow> 'u behaviour) \<Rightarrow> 'u pyobj" where
  "async_def n ps body =
     \<lparr>py_name = Some n, py_type = FunctionType, is_callable = True,
      is_coroutinefunction = True, asyncify_ignore = False, parameters = Some ps,
      call = (\<lambda>args r u. (Inr (PCoro (body args)), u))\<rparr>"

definition builtin :: "string \<Rightarrow> ('u arguments \<Rightarrow> 'u behaviour) \<Rightarrow> 'u pyobj" where
  "builtin n body =
     \<lparr>py_name = Some n, py_type = BuiltinFunctionType, is_callable = True,
      is_coroutinefunction = False, asyncify_ignore = False, parameters = None,
      call = body\<rparr>"

definition not_callable :: "'u pyobj" where
  "not_callable =
     \<lparr>py_name = None, py_type = OtherType, is_callable = False,
      is_coroutinefunction = False, asyncify_ignore = False, parameters = None,
      call = (\<lambda>args r u. (Inl TypeError, u))\<rparr>"

text \<open>\<^verbatim>\<open>return v\<close>, whatever the arguments.\<close>

definition returns :: "'u pyval \<Rightarrow> 'u arguments \<Rightarrow> 'u behaviour" where
  "returns v args r u = (Inr v, u)"

section \<open>cls.py: asyncify\_class\<close>

text \<open>The tuple \<^verbatim>\<open>function_types\<close> and the test \<^verbatim>\<open>isinstance(func, function_types)\<close>.\<close>

definition function_types :: "pytype list" where
  "function_types = [FunctionType, ClassMethodType, StaticMethodType]"

definition isinstance :: "'u pyobj \<Rightarrow> pytype list \<Rightarrow> bool" where
  "isinstance obj types = (py_type obj \<in> set types)"

text \<open>The decorator \<^verbatim>\<open>ignore\<close> sets the sentinel attribute and returns the function.\<close>

definition ignore :: "'u pyobj \<Rightarrow> 'u pyobj" where
  "ignore func = func\<lparr>asyncify_ignore := True\<rparr>"

text \<open>\<^verbatim>\<open>s.startswith(p)\<close>.\<close>

definition startswith :: "string \<Rightarrow> string \<Rightarrow> bool" where
  "startswith s p = prefix p s"

text \<open>
  A class is the list of its members, name and value, as \<^verbatim>\<open>inspect.getmembers(cls)\<close>
  yields them (in the order of their names); \<^verbatim>\<open>setattr(cls, name, v)\<close> replaces the
  member of that name, or adds one. The values are what \<^verbatim>\<open>getattr(cls, name)\<close> gives: for
  a method the function, for a static method the function, for a class method a bound
  method (\<open>MethodType\<close>).
\<close>

type_synonym 'u pyclass = "(string \<times> 'u pyobj) list"

definition getmembers :: "'u pyclass \<Rightarrow> (string \<times> 'u pyobj) list" where
  "getmembers cls = cls"

fun setattr :: "'u pyclass \<Rightarrow> string \<Rightarrow> 'u pyobj \<Rightarrow> 'u pyclass" where
  "setattr [] name v = [(name, v)]"
| "setattr ((k, x) # ms) name v =
     (if k = name then (name, v) # ms else (k, x) # setattr ms name v)"

definition getattr :: "'u pyclass \<Rightarrow> string \<Rightarrow> 'u pyobj option" where
  "getattr cls name = map_of cls name"

text \<open>The test of the loop (cls.py, lines 74 to 78): the member is left alone.\<close>

definition skipped :: "string \<Rightarrow> 'u pyobj \<Rightarrow> bool" where
  "skipped name func \<longleftrightarrow>
     \<not> isinstance func function_types \<or> asyncify_ignore func \<or> startswith name ''__''"

text \<open>
  The loop of \<^verbatim>\<open>asyncify_class\<close> over the members listed before it started; the class is
  changed in place, so an exception leaves it as far as the loop got. The result is
  the exception raised, if any, and the class after.
\<close>

fun asyncify_members :: "(string \<times> 'u pyobj) list \<Rightarrow> 'u pyclass \<Rightarrow> error option \<times> 'u pyclass" where
  "asyncify_members [] cls = (None, cls)"
| "asyncify_members ((name, func) # rest) cls =
     (if skipped name func then asyncify_members rest cls
      else case asyncify_func func of
        Inl e \<Rightarrow> (Some e, cls)
      | Inr func' \<Rightarrow> asyncify_members rest (setattr cls name func'))"

definition asyncify_class :: "'u pyclass \<Rightarrow> error option \<times> 'u pyclass" where
  "asyncify_class cls = asyncify_members (getmembers cls) cls"

text \<open>
  The class of the specification's example: a dunder method, a plain method \<^verbatim>\<open>a\<close> and
  a method \<^verbatim>\<open>b\<close> marked with \<^verbatim>\<open>ignore\<close>. (The members it inherits from \<^verbatim>\<open>object\<close> are
  left out: their names all start with two underscores, so the loop skips them.)
\<close>

definition example_class :: "unit pyclass" where
  "example_class =
     [(''__init__'', plain_def ''__init__'' [''self''] (returns PNone)),
      (''a'', plain_def ''a'' [''self''] (returns (PInt 1))),
      (''b'', ignore (plain_def ''b'' [''self''] (returns (PInt 2))))]"

section \<open>events.py: the event loop policy\<close>

subsection \<open>Changing the base policy\<close>

text \<open>
  A class object, as far as the check looks at it: its name and its \<^verbatim>\<open>__bases__\<close>. The
  classes of asyncio are given with the bases they have in CPython.
\<close>

datatype pycls = PyClass (cls_name: string) (cls_bases: "pycls list")

definition object_cls :: pycls where
  "object_cls = PyClass ''object'' []"

definition AbstractEventLoop :: pycls where
  "AbstractEventLoop = PyClass ''AbstractEventLoop'' [object_cls]"

definition AbstractEventLoopPolicy :: pycls where
  "AbstractEventLoopPolicy = PyClass ''AbstractEventLoopPolicy'' [object_cls]"

definition BaseDefaultEventLoopPolicy :: pycls where
  "BaseDefaultEventLoopPolicy = PyClass ''BaseDefaultEventLoopPolicy'' [AbstractEventLoopPolicy]"

definition DefaultEventLoopPolicy :: pycls where
  "DefaultEventLoopPolicy = PyClass ''_UnixDefaultEventLoopPolicy'' [BaseDefaultEventLoopPolicy]"

definition ChangingEventLoopPolicy :: pycls where
  "ChangingEventLoopPolicy = PyClass ''_ChangingEventLoopPolicy'' [object_cls]"

definition AsyncifyEventLoopPolicy :: pycls where
  "AsyncifyEventLoopPolicy =
     PyClass ''AsyncifyEventLoopPolicy'' [DefaultEventLoopPolicy, ChangingEventLoopPolicy]"

text \<open>\<^verbatim>\<open>issubclass(c, d)\<close>: \<open>c\<close> is \<open>d\<close> or derives from it, directly or not.\<close>

fun issubclass :: "pycls \<Rightarrow> pycls \<Rightarrow> bool" where
  "issubclass (PyClass n bs) d = (PyClass n bs = d \<or> list_ex (\<lambda>b. issubclass b d) bs)"

text \<open>
  \<^verbatim>\<open>cls.change_base_policy(policy_cls)\<close> (events.py, lines 32 to 37); the result is the
  class with its new bases. (The assignment to \<^verbatim>\<open>__bases__\<close> is taken to succeed.)
\<close>

definition change_base_policy :: "pycls \<Rightarrow> pycls \<Rightarrow> error + pycls" where
  "change_base_policy cls policy_cls =
     (if AbstractEventLoop \<notin> set (cls_bases policy_cls) then Inl TypeError
      else Inr (PyClass (cls_name cls) [policy_cls]))"

text \<open>The classes of the examples: a policy of the user's, and an event loop of the user's.\<close>

definition MyPolicy :: pycls where
  "MyPolicy = PyClass ''MyPolicy'' [AbstractEventLoopPolicy]"

definition MyLoop :: pycls where
  "MyLoop = PyClass ''MyLoop'' [AbstractEventLoop]"

subsection \<open>Registering a hook\<close>

definition valid_names :: "string list" where
  "valid_names =
     [''get_event_loop'', ''set_event_loop'', ''new_event_loop'',
      ''get_child_watcher'', ''set_child_watcher'']"

text \<open>
  A policy object: the attributes of its base policy class as \<^verbatim>\<open>super()\<close> finds them,
  by attribute name, each a method bound to the object that carries the \<^verbatim>\<open>__name__\<close> of
  its own \<^verbatim>\<open>def\<close>; and the attributes set on the object itself.
\<close>

record 'u policy =
  base_methods :: "string \<rightharpoonup> 'u pyobj"
  instance_dict :: "string \<rightharpoonup> 'u pyobj"

text \<open>\<^verbatim>\<open>getattr(super(), name)\<close>.\<close>

definition getattr_super :: "'u policy \<Rightarrow> string \<Rightarrow> error + 'u pyobj" where
  "getattr_super self name =
     (case base_methods self name of
        None \<Rightarrow> Inl AttributeError
      | Some m \<Rightarrow> Inr m)"

text \<open>
  \<^verbatim>\<open>getattr(self, name)\<close> for a method name: the object's own attribute if it has one,
  the base policy's method otherwise (the class itself defines \<^verbatim>\<open>event\<close> only).
\<close>

definition policy_getattr :: "'u policy \<Rightarrow> string \<Rightarrow> error + 'u pyobj" where
  "policy_getattr self name =
     (case instance_dict self name of
        Some f \<Rightarrow> Inr f
      | None \<Rightarrow> getattr_super self name)"

text \<open>\<^verbatim>\<open>self.name(*args, **kwargs)\<close>.\<close>

definition call_method :: "'u policy \<Rightarrow> string \<Rightarrow> 'u arguments \<Rightarrow> 'u behaviour" where
  "call_method self name args r u =
     (case policy_getattr self name of
        Inl e \<Rightarrow> (Inl e, u)
      | Inr f \<Rightarrow> py_call f args r u)"

text \<open>The closure \<^verbatim>\<open>updated\<close> (events.py, lines 122 to 124), decorated with \<^verbatim>\<open>functools.wraps(old)\<close>.\<close>

definition updated_body :: "'u pyobj \<Rightarrow> 'u pyobj \<Rightarrow> 'u arguments \<Rightarrow> 'u behaviour" where
  "updated_body func old args r u =
     (case py_call func args r u of
        (Inl e, u') \<Rightarrow> (Inl e, u')
      | (Inr _, u') \<Rightarrow> py_call old args r u')"

definition updated :: "'u pyobj \<Rightarrow> 'u pyobj \<Rightarrow> 'u pyobj" where
  "updated func old =
     wraps old
       \<lparr>py_name = Some ''updated'', py_type = FunctionType, is_callable = True,
        is_coroutinefunction = False, asyncify_ignore = False, parameters = None,
        call = updated_body func old\<rparr>"

text \<open>
  \<^verbatim>\<open>self.event(func)\<close> (events.py, lines 108 to 128), on the platform \<^verbatim>\<open>sys.platform\<close>.
  The result is the closure returned and the policy object with the closure set on it.
\<close>

definition event :: "string \<Rightarrow> 'u policy \<Rightarrow> 'u pyobj \<Rightarrow> error + 'u pyobj \<times> 'u policy" where
  "event platform self func =
     (if \<not> is_callable func then Inl TypeError
      else case py_name func of
        None \<Rightarrow> Inl AttributeError
      | Some name \<Rightarrow>
          if platform = ''win32'' \<and> name \<in> set [''get_child_watcher'', ''set_child_watcher'']
          then Inl RuntimeError
          else if name \<notin> set valid_names then Inl RuntimeError
          else case getattr_super self name of
            Inl e \<Rightarrow> Inl e
          | Inr old \<Rightarrow>
              (case py_name old of
                 None \<Rightarrow> Inl AttributeError
               | Some old_name \<Rightarrow>
                   Inr (updated func old,
                        self\<lparr>instance_dict := (instance_dict self)(old_name \<mapsto> updated func old)\<rparr>)))"









section \<open>hybrid.py: the hybrid dispatcher\<close>

subsection \<open>Strings and the regular expression\<close>

text \<open>
  A character of a Python string is a code point; the characters of the model are the
  code points below 256, \<open>of_char c\<close> the number of \<open>c\<close> (a line with a character beyond
  is outside the model). On these, \<open>isspace\<close> is the whitespace of \<^verbatim>\<open>str.strip()\<close> and of
  \<^verbatim>\<open>\s\<close> in a pattern over \<^verbatim>\<open>str\<close> (the ASCII controls and the space, U+0085 and
  U+00A0), \<open>isword\<close> is \<^verbatim>\<open>\w\<close> (the alphanumeric characters of Unicode and the
  underscore), and \<open>notnewline\<close> is the dot of a pattern.
\<close>

definition isspace :: "char \<Rightarrow> bool" where
  "isspace c \<longleftrightarrow>
     (let n = (of_char c :: nat)
      in (9 \<le> n \<and> n \<le> 13) \<or> (28 \<le> n \<and> n \<le> 32) \<or> n = 133 \<or> n = 160)"

definition isword :: "char \<Rightarrow> bool" where
  "isword c \<longleftrightarrow>
     (let n = (of_char c :: nat)
      in (48 \<le> n \<and> n \<le> 57) \<or> (65 \<le> n \<and> n \<le> 90) \<or> n = 95 \<or> (97 \<le> n \<and> n \<le> 122)
         \<or> n = 170 \<or> n = 178 \<or> n = 179 \<or> n = 181 \<or> n = 185 \<or> n = 186
         \<or> (188 \<le> n \<and> n \<le> 190) \<or> (192 \<le> n \<and> n \<le> 214)
         \<or> (216 \<le> n \<and> n \<le> 246) \<or> (248 \<le> n \<and> n \<le> 255))"

definition notnewline :: "char \<Rightarrow> bool" where
  "notnewline c \<longleftrightarrow> c \<noteq> CHR 0x0A"

text \<open>\<^verbatim>\<open>s.strip()\<close>.\<close>

definition strip :: "string \<Rightarrow> string" where
  "strip s = rev (dropWhile isspace (rev (dropWhile isspace s)))"

text \<open>\<^verbatim>\<open>needle in haystack\<close>, for strings.\<close>

fun str_in :: "string \<Rightarrow> string \<Rightarrow> bool" where
  "str_in needle [] = (needle = [])"
| "str_in needle (c # cs) = (prefix needle (c # cs) \<or> str_in needle cs)"

text \<open>\<^verbatim>\<open>s[a:b]\<close> for \<open>a \<le> b \<le> len(s)\<close>.\<close>

definition slice :: "string \<Rightarrow> nat \<Rightarrow> nat \<Rightarrow> string" where
  "slice s a b = take (b - a) (drop a s)"

text \<open>
  Regular expressions, as far as the pattern of the source needs them, and a
  backtracking matcher in the way of Python's \<^verbatim>\<open>re\<close>: a star is greedy, the left
  alternative is tried first, and the first way through that the rest accepts is
  taken. \<open>rmatch e s k\<close> matches \<open>e\<close> against a prefix of \<open>s\<close> and hands what is left of \<open>s\<close>
  to \<open>k\<close>.
\<close>

datatype regex =
    Chr char
  | Class "char \<Rightarrow> bool"
  | Seq regex regex
  | Alt regex regex
  | Star regex

fun rmatch :: "regex \<Rightarrow> string \<Rightarrow> (string \<Rightarrow> 'a option) \<Rightarrow> 'a option" where
  "rmatch (Chr c) s k = (case s of [] \<Rightarrow> None | x # xs \<Rightarrow> if x = c then k xs else None)"
| "rmatch (Class p) s k = (case s of [] \<Rightarrow> None | x # xs \<Rightarrow> if p x then k xs else None)"
| "rmatch (Seq a b) s k = rmatch a s (\<lambda>s'. rmatch b s' k)"
| "rmatch (Alt a b) s k = (case rmatch a s k of Some m \<Rightarrow> Some m | None \<Rightarrow> rmatch b s k)"
| "rmatch (Star a) s k =
     (case rmatch a s (\<lambda>s'. if length s' < length s then rmatch (Star a) s' k else None) of
        Some m \<Rightarrow> Some m
      | None \<Rightarrow> k s)"

text \<open>\<^verbatim>\<open>e+\<close> is \<^verbatim>\<open>ee*\<close>; a word of the pattern is the sequence of its characters.\<close>

definition Plus :: "regex \<Rightarrow> regex" where
  "Plus e = Seq e (Star e)"

fun Word :: "string \<Rightarrow> regex \<Rightarrow> regex" where
  "Word [] e = e"
| "Word (c # cs) e = Seq (Chr c) (Word cs e)"

text \<open>
  \<^verbatim>\<open>pattern.search(s)\<close>: the leftmost position where the pattern matches, and the span
  \<^verbatim>\<open>(start, end)\<close> of the match there. \<open>search_from e s i\<close> looks through \<open>s\<close>, which
  starts at position \<open>i\<close> of the whole string.
\<close>

fun search_from :: "regex \<Rightarrow> string \<Rightarrow> nat \<Rightarrow> (nat \<times> nat) option" where
  "search_from e [] i =
     (case rmatch e [] Some of
        Some rest \<Rightarrow> Some (i, i)
      | None \<Rightarrow> None)"
| "search_from e (c # cs) i =
     (case rmatch e (c # cs) Some of
        Some rest \<Rightarrow> Some (i, i + (length (c # cs) - length rest))
      | None \<Rightarrow> search_from e cs (Suc i))"

definition regex_search :: "regex \<Rightarrow> string \<Rightarrow> (nat \<times> nat) option" where
  "regex_search e s = search_from e s 0"

text \<open>The class attribute \<^verbatim>\<open>regex = re.compile(r'await\s+(\w|\.)*\(.*\)')\<close>.\<close>

definition hybrid_regex :: regex where
  "hybrid_regex =
     Word ''await''
       (Seq (Plus (Class isspace))
         (Seq (Star (Alt (Class isword) (Chr CHR ''.'')))
           (Seq (Chr CHR ''('')
             (Seq (Star (Class notnewline)) (Chr CHR '')'')))))"

subsection \<open>The dispatcher\<close>

text \<open>
  \<^verbatim>\<open>inspect.signature(obj).parameters\<close>: \<^verbatim>\<open>TypeError\<close> for an object that is not callable,
  \<^verbatim>\<open>ValueError\<close> when no signature is found.
\<close>

definition signature :: "'u pyobj \<Rightarrow> error + string list" where
  "signature obj =
     (if \<not> is_callable obj then Inl TypeError
      else case parameters obj of None \<Rightarrow> Inl ValueError | Some ps \<Rightarrow> Inr ps)"

text \<open>The truth value of a Python value (\<^verbatim>\<open>if v:\<close>).\<close>

fun truthy :: "'u pyval \<Rightarrow> bool" where
  "truthy PNone = False"
| "truthy (PBool b) = b"
| "truthy (PInt i) = (i \<noteq> 0)"
| "truthy (PStr s) = (s \<noteq> [])"
| "truthy (PObject i b) = b"
| "truthy (PCoro k) = True"

text \<open>
  A \<^verbatim>\<open>HybridFunction\<close> object: \<^verbatim>\<open>_name\<close>, the two callbacks and \<^verbatim>\<open>_instance\<close>. (The
  metadata that \<^verbatim>\<open>functools.update_wrapper\<close> copies onto the object is not read by the
  dispatcher and is left out.)
\<close>

record 'u hybrid =
  hf_name :: string
  sync_callback :: "'u pyobj"
  async_callback :: "'u pyobj"
  hf_instance :: "'u pyval"

text \<open>\<^verbatim>\<open>HybridFunction.__init__\<close> (hybrid.py, lines 23 to 33) and \<^verbatim>\<open>hybrid_function\<close>.\<close>

definition hybrid_init :: "string \<Rightarrow> 'u pyobj \<Rightarrow> 'u pyobj \<Rightarrow> error + 'u hybrid" where
  "hybrid_init name sync_cb async_cb =
     (case signature sync_cb of
        Inl e \<Rightarrow> Inl e
      | Inr ps \<Rightarrow>
          (case signature async_cb of
             Inl e \<Rightarrow> Inl e
           | Inr qs \<Rightarrow>
               if length ps \<noteq> length qs then Inl TypeError
               else Inr \<lparr>hf_name = name, sync_callback = sync_cb, async_callback = async_cb,
                         hf_instance = PNone\<rparr>))"

definition hybrid_function :: "string \<Rightarrow> 'u pyobj \<Rightarrow> 'u pyobj \<Rightarrow> error + 'u hybrid" where
  "hybrid_function name sync_cb async_cb = hybrid_init name sync_cb async_cb"

text \<open>\<^verbatim>\<open>HybridFunction.__get__\<close> (lines 35 to 38): a new dispatcher, bound to the instance.\<close>

definition hybrid_get :: "'u hybrid \<Rightarrow> 'u pyval \<Rightarrow> error + 'u hybrid" where
  "hybrid_get self inst =
     (case hybrid_init (hf_name self) (sync_callback self) (async_callback self) of
        Inl e \<Rightarrow> Inl e
      | Inr new_self \<Rightarrow> Inr (new_self\<lparr>hf_instance := inst\<rparr>))"

text \<open>\<^verbatim>\<open>HybridFunction._check_regex\<close> (lines 40 to 49).\<close>

definition check_regex :: "'u hybrid \<Rightarrow> string \<Rightarrow> bool" where
  "check_regex self code_ctx =
     (case regex_search hybrid_regex code_ctx of
        None \<Rightarrow> False
      | Some (a, b) \<Rightarrow> str_in (hf_name self) (slice code_ctx a b))"

text \<open>
  A frame of the call stack, as \<^verbatim>\<open>inspect.getouterframes\<close> reports it: the source lines
  around the line the frame is executing, or \<open>None\<close> when the source is not at hand.
\<close>

record frame_info =
  code_context :: "string list option"

text \<open>\<^verbatim>\<open>HybridFunction._get_frame\<close> (lines 51 to 58), over the frames listed.\<close>

fun get_frame :: "string \<Rightarrow> frame_info list \<Rightarrow> error + string" where
  "get_frame name [] = Inl RuntimeError"
| "get_frame name (f # fs) =
     (case code_context f of
        None \<Rightarrow> get_frame name fs
      | Some [] \<Rightarrow> get_frame name fs
      | Some (l # ls) \<Rightarrow> if str_in name l then Inr l else get_frame name fs)"

text \<open>
  \<^verbatim>\<open>HybridFunction.__call__\<close> (lines 60 to 70). \<open>stack\<close> is what the call sees of the
  stack: \<open>None\<close> when \<^verbatim>\<open>inspect.currentframe()\<close> has no frame to give, and otherwise the
  frames of \<^verbatim>\<open>inspect.getouterframes(frame)\<close>, the frame of \<^verbatim>\<open>__call__\<close> itself first,
  its caller second.
\<close>

definition hybrid_call :: "'u hybrid \<Rightarrow> frame_info list option \<Rightarrow> 'u arguments \<Rightarrow> 'u behaviour" where
  "hybrid_call self stack a r u =
     (case a of (args, kwargs) \<Rightarrow>
        let args' = (if truthy (hf_instance self) then hf_instance self # args else args)
        in case stack of
          None \<Rightarrow> (Inl AssertionError, u)
        | Some frames \<Rightarrow>
            (case get_frame (hf_name self) frames of
               Inl e \<Rightarrow> (Inl e, u)
             | Inr line \<Rightarrow>
                 if check_regex self (strip line)
                 then py_call (async_callback self) (args', kwargs) r u
                 else py_call (sync_callback self) (args', kwargs) r u))"

text \<open>
  The frame of \<^verbatim>\<open>__call__\<close> while it calls \<^verbatim>\<open>_get_frame\<close>: it is at line 67 of hybrid.py.
  \<open>frame_of l\<close> is a frame at the source line \<open>l\<close>.
\<close>

definition frame_of :: "string \<Rightarrow> frame_info" where
  "frame_of l = \<lparr>code_context = Some [l @ [CHR 0x0A]]\<rparr>"

definition own_frame :: frame_info where
  "own_frame = frame_of ''        code_context = self._get_frame(frame).strip()''"

text \<open>The frame's line, if it has one, holds the name.\<close>

definition names_line :: "string \<Rightarrow> frame_info \<Rightarrow> bool" where
  "names_line name f =
     (case code_context f of
        None \<Rightarrow> False
      | Some [] \<Rightarrow> False
      | Some (l # ls) \<Rightarrow> str_in name l)"

text \<open>
  The dispatcher of the specification's example: the sync callback returns 1, the
  async callback returns a coroutine that resolves to 2.
\<close>

definition foo :: "unit hybrid" where
  "foo =
     \<lparr>hf_name = ''foo'',
      sync_callback = plain_def ''sync_foo'' [] (returns (PInt 1)),
      async_callback = async_def ''async_foo'' [] (returns (PInt 2)),
      hf_instance = PNone\<rparr>"

text \<open>The same callbacks registered under the name \<^verbatim>\<open>get\<close>.\<close>

definition get_dispatcher :: "unit hybrid" where
  "get_dispatcher = foo\<lparr>hf_name := ''get''\<rparr>"

text \<open>A callback that returns the number of its positional arguments.\<close>

definition count_args :: "'u arguments \<Rightarrow> 'u behaviour" where
  "count_args a r u = (Inr (PInt (int (length (fst a)))), u)"

text \<open>
  A dispatcher used as a class member, as in the docstring of \<^verbatim>\<open>hybrid_function\<close>; both
  callbacks tell the number of positional arguments they were given.
\<close>

definition get_or_fetch_user :: "unit hybrid" where
  "get_or_fetch_user =
     \<lparr>hf_name = ''get_or_fetch_user'',
      sync_callback = plain_def ''get_user'' [''self''] count_args,
      async_callback = async_def ''fetch_user'' [''self''] count_args,
      hf_instance = PNone\<rparr>"

section \<open>Properties of func.py\<close>

lemma sync_func_fields:
  "py_type (sync_func f) = FunctionType"
  "is_coroutinefunction (sync_func f) = False"
  "is_callable (sync_func f) = True"
  "call (sync_func f) = sync_func_body f"
  by (simp_all add: sync_func_def wraps_def)

lemma async_func_fields:
  "py_type (async_func f) = FunctionType"
  "is_coroutinefunction (async_func f) = True"
  "is_callable (async_func f) = True"
  "call (async_func f) = (\<lambda>args r u. (Inr (PCoro (async_func_body f args)), u))"
  by (simp_all add: async_func_def wraps_def)

text \<open>
  Claim C1 says that \<^verbatim>\<open>asyncify_func(f)\<close>, for a callable \<open>f\<close> that is not a coroutine
  function, returns a wrapper whose awaitable runs \<open>f\<close> and resolves to its result. The
  code does not get that far: the test at line 58 is \<^verbatim>\<open>if callable(func)\<close> where
  \<^verbatim>\<open>syncify_func\<close> has \<^verbatim>\<open>if not callable(func)\<close>, so every such \<open>f\<close> is refused with
  \<^verbatim>\<open>TypeError\<close> when it is wrapped and no wrapper exists to be awaited.
\<close>

theorem asyncify_func_rejects_callable:
  "is_callable f \<Longrightarrow> \<not> is_coroutinefunction f \<Longrightarrow> asyncify_func f = Inl TypeError"
  by (simp add: asyncify_func_def)

theorem asyncify_func_rejects_callable_witness:
  "is_callable (plain_def ''get'' [''url''] (returns (PStr ''text'')) :: unit pyobj)
   \<and> \<not> is_coroutinefunction (plain_def ''get'' [''url''] (returns (PStr ''text'')) :: unit pyobj)
   \<and> asyncify_func (plain_def ''get'' [''url''] (returns (PStr ''text'')) :: unit pyobj)
       = Inl TypeError"
  using asyncify_func_rejects_callable
    [of "plain_def ''get'' [''url''] (returns (PStr ''text'')) :: unit pyobj"]
  by (simp add: plain_def_def)

text \<open>
  Claim C2 says that \<^verbatim>\<open>asyncify_func\<close> raises \<^verbatim>\<open>TypeError\<close> at wrap time exactly when its
  argument is not callable. The code raises it exactly when the argument is callable
  (and not a coroutine function): the condition is the other way round.
\<close>

theorem asyncify_func_raises_iff:
  "(\<exists>e. asyncify_func f = Inl e) \<longleftrightarrow> is_callable f \<and> \<not> is_coroutinefunction f"
  by (simp add: asyncify_func_def)

text \<open>
  What is not callable is wrapped without complaint, and the wrapper fails when its
  coroutine is awaited: \<^verbatim>\<open>functools.partial\<close> refuses the object.
\<close>

lemma asyncify_func_wraps_not_callable:
  "\<not> is_callable f \<Longrightarrow> \<not> is_coroutinefunction f \<Longrightarrow> asyncify_func f = Inr (async_func f)"
  by (simp add: asyncify_func_def)

lemma async_func_of_not_callable:
  "\<not> is_callable f \<Longrightarrow>
   py_call (async_func f) args r u = (Inr (PCoro (async_func_body f args)), u)
   \<and> await (PCoro (async_func_body f args)) r' u' = (Inl TypeError, u')"
  by (simp add: py_call_def async_func_fields await_def async_func_body_def partial_def)

lemma asyncify_func_number:
  "asyncify_func (not_callable :: unit pyobj) = Inr (async_func not_callable)"
  by (simp add: asyncify_func_def not_callable_def)

text \<open>
  So no wrapper that \<^verbatim>\<open>asyncify_func\<close> builds ever resolves to a value: whatever it returns
  is its argument unchanged, or a wrapper whose coroutine fails with \<^verbatim>\<open>TypeError\<close>.
\<close>

lemma asyncify_func_result:
  "asyncify_func f = Inr g \<Longrightarrow>
   g = f \<or> (g = async_func f \<and> (\<forall>args r u. async_func_body f args r u = (Inl TypeError, u)))"
  by (auto simp: asyncify_func_def async_func_body_def partial_def split: if_splits)

text \<open>The wrapper \<^verbatim>\<open>sync_func\<close> returns no value, whatever it wraps and wherever it is called.\<close>

lemma sync_func_body_no_value: "\<exists>e. fst (sync_func_body g args r u) = Inl e"
  by (cases r)
    (auto simp: sync_func_body_def get_running_loop_def run_until_complete_def
      split: prod.splits sum.splits)

text \<open>
  Claim C4 says that calling \<^verbatim>\<open>syncify_func(g)\<close>, for a coroutine function \<open>g\<close> and with an
  active scheduler, returns the value the awaitable resolves to. The wrapper takes its
  loop from \<^verbatim>\<open>asyncio.get_running_loop()\<close>: with no running loop that call raises, and a
  loop it returns is running, so \<^verbatim>\<open>run_until_complete\<close> refuses it. (The docstring gives
  \<^verbatim>\<open>asyncio.get_event_loop()\<close> as the equivalent.) Whatever the thread's running loop, the
  call of the wrapper ends in \<^verbatim>\<open>RuntimeError\<close>, and the awaitable is never driven.
\<close>

theorem syncify_func_wrapper_raises:
  "is_callable g \<Longrightarrow> is_coroutinefunction g \<Longrightarrow> call g args r u = (Inr aw, u') \<Longrightarrow>
   syncify_func g = Inr (sync_func g)
   \<and> py_call (sync_func g) args r u = (Inl RuntimeError, if r = None then u else u')"
  by (cases r)
    (simp_all add: syncify_func_def py_call_def sync_func_fields sync_func_body_def
      get_running_loop_def run_until_complete_def)

theorem syncify_func_wrapper_raises_witness:
  "is_callable (async_def ''g'' [] (returns (PInt 2)) :: unit pyobj)
   \<and> is_coroutinefunction (async_def ''g'' [] (returns (PInt 2)) :: unit pyobj)
   \<and> call (async_def ''g'' [] (returns (PInt 2)) :: unit pyobj) ([], []) (Some 0) ()
       = (Inr (PCoro (returns (PInt 2) ([], []))), ())
   \<and> syncify_func (async_def ''g'' [] (returns (PInt 2)) :: unit pyobj)
       = Inr (sync_func (async_def ''g'' [] (returns (PInt 2))))
   \<and> py_call (sync_func (async_def ''g'' [] (returns (PInt 2)) :: unit pyobj)) ([], []) (Some 0) ()
       = (Inl RuntimeError, ())"
  using syncify_func_wrapper_raises
    [of "async_def ''g'' [] (returns (PInt 2)) :: unit pyobj" "([], [])" "Some 0" "()"
        "PCoro (returns (PInt 2) ([], []))" "()"]
  by (simp add: async_def_def)

text \<open>The same call from a thread with no running loop (the docstring's example).\<close>

lemma syncify_func_no_loop:
  "py_call (sync_func (async_def ''g'' [] (returns (PInt 2)) :: unit pyobj)) ([], []) None ()
     = (Inl RuntimeError, ())"
  by (simp add: py_call_def sync_func_fields sync_func_body_def get_running_loop_def)

text \<open>
  Claim C8, as stated, says that \<^verbatim>\<open>syncify_func(f) is f\<close> for every callable \<open>f\<close> that is
  not a coroutine function, and that \<^verbatim>\<open>asyncify_func(f) is f\<close> for every coroutine
  function. The first half fails for a callable that is not a plain function
  (a builtin, a bound method, a callable instance): the guard at line 103 asks
  \<^verbatim>\<open>inspect.isfunction(func)\<close>, so such an \<open>f\<close> is wrapped.
\<close>

theorem syncify_func_identity_counterexample:
  "\<not> ((\<forall>f :: unit pyobj. is_callable f \<and> \<not> is_coroutinefunction f \<longrightarrow> syncify_func f = Inr f)
      \<and> (\<forall>f :: unit pyobj. is_coroutinefunction f \<longrightarrow> asyncify_func f = Inr f))"
proof
  let ?len = "builtin ''len'' (returns (PInt 0)) :: unit pyobj"
  assume "(\<forall>f :: unit pyobj. is_callable f \<and> \<not> is_coroutinefunction f \<longrightarrow> syncify_func f = Inr f)
      \<and> (\<forall>f :: unit pyobj. is_coroutinefunction f \<longrightarrow> asyncify_func f = Inr f)"
  then have "is_callable ?len \<and> \<not> is_coroutinefunction ?len \<longrightarrow> syncify_func ?len = Inr ?len"
    by blast
  then have "sync_func ?len = ?len"
    by (simp add: builtin_def syncify_func_def isfunction_def)
  then have "py_type (sync_func ?len) = py_type ?len"
    by simp
  then show False
    by (simp add: sync_func_fields builtin_def)
qed

text \<open>
  Claim C8, amended: \<^verbatim>\<open>syncify_func(f) is f\<close> for every plain function \<open>f\<close> (one that
  \<^verbatim>\<open>inspect.isfunction\<close> accepts) that is not a coroutine function, and among callables
  for no other: every other callable is wrapped, the result is \<^verbatim>\<open>sync_func\<close> around it;
  and \<^verbatim>\<open>asyncify_func(f) is f\<close> for every coroutine function \<open>f\<close>.
\<close>

theorem syncify_asyncify_identity:
  "(isfunction f \<and> \<not> is_coroutinefunction f \<longrightarrow> syncify_func f = Inr f)
   \<and> (is_callable f \<and> syncify_func f = Inr f \<longrightarrow> isfunction f \<and> \<not> is_coroutinefunction f)
   \<and> (is_callable f \<and> \<not> (isfunction f \<and> \<not> is_coroutinefunction f) \<longrightarrow>
        syncify_func f = Inr (sync_func f) \<and> sync_func f \<noteq> f)
   \<and> (is_coroutinefunction g \<longrightarrow> asyncify_func g = Inr g)"
proof -
  have "sync_func f \<noteq> f" if "\<not> (isfunction f \<and> \<not> is_coroutinefunction f)"
  proof
    assume "sync_func f = f"
    then have "py_type (sync_func f) = py_type f"
      and "is_coroutinefunction (sync_func f) = is_coroutinefunction f"
      by simp_all
    with that show False
      by (simp add: sync_func_fields isfunction_def)
  qed
  then show ?thesis
    by (auto simp: syncify_func_def asyncify_func_def)
qed

theorem syncify_asyncify_identity_witness:
  "isfunction (plain_def ''f'' [] (returns (PInt 1)) :: unit pyobj)
   \<and> \<not> is_coroutinefunction (plain_def ''f'' [] (returns (PInt 1)) :: unit pyobj)
   \<and> is_callable (plain_def ''f'' [] (returns (PInt 1)) :: unit pyobj)
   \<and> syncify_func (plain_def ''f'' [] (returns (PInt 1)) :: unit pyobj)
       = Inr (plain_def ''f'' [] (returns (PInt 1)))
   \<and> is_callable (builtin ''len'' (returns (PInt 0)) :: unit pyobj)
   \<and> \<not> (isfunction (builtin ''len'' (returns (PInt 0)) :: unit pyobj)
          \<and> \<not> is_coroutinefunction (builtin ''len'' (returns (PInt 0)) :: unit pyobj))
   \<and> syncify_func (builtin ''len'' (returns (PInt 0)) :: unit pyobj)
       = Inr (sync_func (builtin ''len'' (returns (PInt 0))))
   \<and> sync_func (builtin ''len'' (returns (PInt 0)) :: unit pyobj) \<noteq> builtin ''len'' (returns (PInt 0))
   \<and> is_coroutinefunction (async_def ''g'' [] (returns (PInt 2)) :: unit pyobj)
   \<and> asyncify_func (async_def ''g'' [] (returns (PInt 2)) :: unit pyobj)
       = Inr (async_def ''g'' [] (returns (PInt 2)))"
proof -
  let ?f = "plain_def ''f'' [] (returns (PInt 1)) :: unit pyobj"
  let ?len = "builtin ''len'' (returns (PInt 0)) :: unit pyobj"
  let ?g = "async_def ''g'' [] (returns (PInt 2)) :: unit pyobj"
  have f: "isfunction ?f" "\<not> is_coroutinefunction ?f" "is_callable ?f"
    by (simp_all add: plain_def_def isfunction_def)
  have l: "is_callable ?len" "\<not> (isfunction ?len \<and> \<not> is_coroutinefunction ?len)"
    by (simp_all add: builtin_def isfunction_def)
  have g: "is_coroutinefunction ?g"
    by (simp add: async_def_def)
  from syncify_asyncify_identity [of ?f ?g] f g
  have 1: "syncify_func ?f = Inr ?f" and 2: "asyncify_func ?g = Inr ?g"
    by blast+
  from syncify_asyncify_identity [of ?len ?g] l
  have 3: "syncify_func ?len = Inr (sync_func ?len)" and 4: "sync_func ?len \<noteq> ?len"
    by blast+
  from f l g 1 2 3 4 show ?thesis
    by blast
qed

section \<open>Properties of cls.py\<close>

lemma asyncify_func_error: "asyncify_func f = Inl e \<Longrightarrow> e = TypeError"
  by (simp add: asyncify_func_def split: if_splits)

lemma asyncify_members_raises:
  "(name, func) \<in> set ms \<Longrightarrow> \<not> skipped name func \<Longrightarrow> is_callable func \<Longrightarrow>
   \<not> is_coroutinefunction func \<Longrightarrow> fst (asyncify_members ms cls) = Some TypeError"
proof (induction ms arbitrary: cls)
  case Nil
  then show ?case by simp
next
  case (Cons m ms)
  obtain n f where m: "m = (n, f)" by (cases m)
  show ?case
  proof (cases "(name, func) = m")
    case True
    with Cons.prems m show ?thesis
      by (simp add: asyncify_func_def)
  next
    case False
    with Cons.prems have "(name, func) \<in> set ms" by simp
    then have "fst (asyncify_members ms c) = Some TypeError" for c
      using Cons.IH Cons.prems by blast
    then show ?thesis
      using m by (auto split: sum.splits dest: asyncify_func_error)
  qed
qed

text \<open>
  Claim C3 says that \<^verbatim>\<open>asyncify_class(C)\<close> replaces every eligible member of \<open>C\<close> by its
  wrapped version and returns the class. An eligible member that is an ordinary
  method is callable and not a coroutine function, so \<^verbatim>\<open>asyncify_func\<close> refuses it
  (see C1): as soon as the class has one such member, \<^verbatim>\<open>asyncify_class\<close> raises
  \<^verbatim>\<open>TypeError\<close> and returns nothing.
\<close>

theorem asyncify_class_raises:
  assumes "(name, func) \<in> set (getmembers cls)"
    and "isinstance func function_types"
    and "\<not> asyncify_ignore func"
    and "\<not> startswith name ''__''"
    and "is_callable func"
    and "\<not> is_coroutinefunction func"
  shows "fst (asyncify_class cls) = Some TypeError"
proof -
  from assms(2-4) have "\<not> skipped name func"
    by (simp add: skipped_def)
  with assms(1,5,6) show ?thesis
    unfolding asyncify_class_def by (simp add: asyncify_members_raises)
qed

text \<open>
  On the class of the specification's example the call raises and leaves the class as
  it was: \<^verbatim>\<open>a\<close> is still the plain function.
\<close>

lemma asyncify_class_example:
  "asyncify_class example_class = (Some TypeError, example_class)"
  by (simp add: asyncify_class_def getmembers_def example_class_def skipped_def isinstance_def
      function_types_def startswith_def plain_def_def ignore_def asyncify_func_def)

theorem asyncify_class_raises_witness:
  "(''a'', plain_def ''a'' [''self''] (returns (PInt 1))) \<in> set (getmembers example_class)
   \<and> isinstance (plain_def ''a'' [''self''] (returns (PInt 1)) :: unit pyobj) function_types
   \<and> \<not> asyncify_ignore (plain_def ''a'' [''self''] (returns (PInt 1)) :: unit pyobj)
   \<and> \<not> startswith ''a'' ''__''
   \<and> is_callable (plain_def ''a'' [''self''] (returns (PInt 1)) :: unit pyobj)
   \<and> \<not> is_coroutinefunction (plain_def ''a'' [''self''] (returns (PInt 1)) :: unit pyobj)
   \<and> fst (asyncify_class example_class) = Some TypeError
   \<and> getattr (snd (asyncify_class example_class)) ''a''
       = Some (plain_def ''a'' [''self''] (returns (PInt 1)))"
proof -
  let ?a = "plain_def ''a'' [''self''] (returns (PInt 1)) :: unit pyobj"
  have h1: "(''a'', ?a) \<in> set (getmembers example_class)"
    by (simp add: getmembers_def example_class_def)
  have h2: "isinstance ?a function_types"
    by (simp add: isinstance_def function_types_def plain_def_def)
  have h3: "\<not> asyncify_ignore ?a" and h5: "is_callable ?a" and h6: "\<not> is_coroutinefunction ?a"
    by (simp_all add: plain_def_def)
  have h4: "\<not> startswith ''a'' ''__''"
    by (simp add: startswith_def)
  have "getattr (snd (asyncify_class example_class)) ''a'' = Some ?a"
    by (simp add: asyncify_class_example) (simp add: getattr_def example_class_def)
  with asyncify_class_raises [OF h1 h2 h3 h4 h5 h6] h1 h2 h3 h4 h5 h6 show ?thesis
    by simp
qed

text \<open>
  A class with no eligible member is returned as it is; a member marked with \<^verbatim>\<open>ignore\<close>
  is not eligible.
\<close>

lemma asyncify_members_all_skipped:
  "\<forall>(name, func) \<in> set ms. skipped name func \<Longrightarrow> asyncify_members ms cls = (None, cls)"
  by (induction ms) auto

lemma asyncify_class_nothing_eligible:
  "\<forall>(name, func) \<in> set (getmembers cls). skipped name func \<Longrightarrow> asyncify_class cls = (None, cls)"
  by (simp add: asyncify_class_def asyncify_members_all_skipped)

lemma skipped_ignore: "skipped name (ignore func)"
  by (simp add: skipped_def ignore_def)

text \<open>A class method, read off the class as a bound method, is not eligible either.\<close>

lemma skipped_bound_method: "py_type func = MethodType \<Longrightarrow> skipped name func"
  by (simp add: skipped_def isinstance_def function_types_def)

section \<open>Properties of events.py\<close>

text \<open>
  Claim C5 says that \<^verbatim>\<open>change_base_policy(policy_cls)\<close> succeeds when \<open>policy_cls\<close>
  derives from \<^verbatim>\<open>asyncio.AbstractEventLoopPolicy\<close> and raises \<^verbatim>\<open>TypeError\<close> otherwise.
  The check of the code (line 33) looks for \<^verbatim>\<open>asyncio.AbstractEventLoop\<close>, the class of
  event loops, among the direct bases of \<open>policy_cls\<close>: that alone decides.
\<close>

theorem change_base_policy_raises_iff:
  "(\<exists>e. change_base_policy cls policy_cls = Inl e)
     \<longleftrightarrow> AbstractEventLoop \<notin> set (cls_bases policy_cls)"
  by (simp add: change_base_policy_def)

text \<open>
  So a policy class is refused, the default policy of asyncio among them, and an
  event loop class, which is no policy, is accepted.
\<close>

lemma change_base_policy_refuses_policy:
  "issubclass MyPolicy AbstractEventLoopPolicy
   \<and> change_base_policy AsyncifyEventLoopPolicy MyPolicy = Inl TypeError"
  by (simp add: MyPolicy_def AbstractEventLoopPolicy_def change_base_policy_def
      AbstractEventLoop_def object_cls_def)

lemma change_base_policy_refuses_default:
  "issubclass DefaultEventLoopPolicy AbstractEventLoopPolicy
   \<and> change_base_policy AsyncifyEventLoopPolicy DefaultEventLoopPolicy = Inl TypeError"
  by (simp add: DefaultEventLoopPolicy_def BaseDefaultEventLoopPolicy_def
      AbstractEventLoopPolicy_def change_base_policy_def AbstractEventLoop_def object_cls_def)

lemma change_base_policy_accepts_loop:
  "\<not> issubclass MyLoop AbstractEventLoopPolicy
   \<and> change_base_policy AsyncifyEventLoopPolicy MyLoop
       = Inr (PyClass ''AsyncifyEventLoopPolicy'' [MyLoop])"
  by (simp add: MyLoop_def AbstractEventLoopPolicy_def change_base_policy_def
      AbstractEventLoop_def object_cls_def AsyncifyEventLoopPolicy_def)

lemma updated_fields:
  "is_callable (updated func old)"
  "call (updated func old) = updated_body func old"
  by (simp_all add: updated_def wraps_def)

text \<open>
  What a successful \<^verbatim>\<open>event\<close> has done: the closure is set on the object under the
  \<^verbatim>\<open>__name__\<close> of the base policy's method.
\<close>

lemma event_installs:
  assumes "event platform self func = Inr (upd, self')"
    and "py_name func = Some name"
  shows "\<exists>old old_name. getattr_super self name = Inr old \<and> py_name old = Some old_name \<and>
    upd = updated func old \<and>
    self' = self\<lparr>instance_dict := (instance_dict self)(old_name \<mapsto> updated func old)\<rparr>"
  using assms by (auto simp: event_def split: if_splits sum.splits option.splits)

lemma call_method_hooked:
  "call_method (self\<lparr>instance_dict := (instance_dict self)(name \<mapsto> updated func old)\<rparr>) name args r u
     = updated_body func old args r u"
  by (simp add: call_method_def policy_getattr_def py_call_def updated_fields)

lemma call_method_other:
  "other \<noteq> name \<Longrightarrow>
   call_method (self\<lparr>instance_dict := (instance_dict self)(name \<mapsto> f)\<rparr>) other args r u
     = call_method self other args r u"
  by (simp add: call_method_def policy_getattr_def getattr_super_def split: option.splits)

lemma getattr_super_hooked:
  "getattr_super (self\<lparr>instance_dict := d\<rparr>) name = getattr_super self name"
  by (simp add: getattr_super_def)





text \<open>
  A hook registered for a name that has one already replaces it: the call runs the new
  hook and the base policy's implementation, not the old hook. A hook registered for
  another name leaves it in place.
\<close>

lemma event_twice:
  assumes "event platform self f1 = Inr (upd1, self1)"
    and "event platform self1 f2 = Inr (upd2, self2)"
    and "py_name f1 = Some name" and "py_name f2 = Some name"
    and "getattr_super self name = Inr old" and "py_name old = Some name"
  shows "call_method self2 name args r u = updated_body f2 old args r u"
proof -
  from event_installs [OF assms(1,3)] assms(5,6)
  have s1: "self1 = self\<lparr>instance_dict := (instance_dict self)(name \<mapsto> updated f1 old)\<rparr>"
    by auto
  then have "getattr_super self1 name = Inr old"
    using assms(5) by (simp add: getattr_super_hooked)
  with event_installs [OF assms(2,4)] assms(6)
  have "self2 = self1\<lparr>instance_dict := (instance_dict self1)(name \<mapsto> updated f2 old)\<rparr>"
    by auto
  then show ?thesis
    by (simp add: call_method_hooked)
qed

lemma event_keeps_other_hooks:
  assumes "event platform self func = Inr (upd, self')"
    and "py_name func = Some name"
    and "getattr_super self name = Inr old" and "py_name old = Some old_name"
    and "other \<noteq> old_name"
  shows "call_method self' other args r u = call_method self other args r u"
proof -
  from event_installs [OF assms(1,2)] assms(3,4)
  have "self' = self\<lparr>instance_dict := (instance_dict self)(old_name \<mapsto> updated func old)\<rparr>"
    by auto
  with assms(5) show ?thesis
    by (simp add: call_method_other)
qed

text \<open>What \<^verbatim>\<open>event\<close> refuses.\<close>

lemma event_not_callable: "\<not> is_callable func \<Longrightarrow> event platform self func = Inl TypeError"
  by (simp add: event_def)

lemma event_invalid_name:
  "is_callable func \<Longrightarrow> py_name func = Some name \<Longrightarrow> name \<notin> set valid_names \<Longrightarrow>
   event platform self func = Inl RuntimeError"
  by (simp add: event_def)

lemma event_child_watcher_win32:
  "is_callable func \<Longrightarrow> py_name func = Some name \<Longrightarrow>
   name = ''get_child_watcher'' \<or> name = ''set_child_watcher'' \<Longrightarrow>
   event ''win32'' self func = Inl RuntimeError"
  by (auto simp: event_def)

section \<open>Properties of hybrid.py\<close>

text \<open>The pattern on some lines: the span is that of the leftmost match, greedy to the last bracket.\<close>

lemma regex_search_examples:
  "regex_search hybrid_regex ''x = await foo(1, 2) + bar()'' = Some (4, 27)"
  "regex_search hybrid_regex ''await await foo()'' = Some (6, 17)"
  "regex_search hybrid_regex ''await  f(a))) # )'' = Some (0, 17)"
  "regex_search hybrid_regex ''await   a.b.foo (1)'' = None"
  "regex_search hybrid_regex ''foo()'' = None"
  by code_simp+

lemma str_in_sublist: "str_in xs ys \<longleftrightarrow> sublist xs ys"
  by (induction ys) (simp_all add: sublist_Cons_right)

lemma sublist_slice: "sublist (slice s a b) s"
  unfolding slice_def
  by (meson sublist_drop sublist_order.order_trans sublist_take)

lemma sublist_strip: "sublist (strip s) s"
proof -
  have "suffix (dropWhile isspace (rev (dropWhile isspace s))) (rev (dropWhile isspace s))"
    by (rule suffix_dropWhile)
  then have "prefix (strip s) (dropWhile isspace s)"
    unfolding strip_def by (metis rev_rev_ident suffix_to_prefix)
  moreover have "suffix (dropWhile isspace s) s"
    by (rule suffix_dropWhile)
  ultimately show ?thesis
    by (meson prefix_imp_sublist suffix_imp_sublist sublist_order.order_trans)
qed

text \<open>A line that passes \<^verbatim>\<open>_check_regex\<close> holds the name.\<close>

lemma check_regex_names_line: "check_regex self (strip l) \<Longrightarrow> str_in (hf_name self) l"
proof -
  assume "check_regex self (strip l)"
  then obtain a b where "sublist (hf_name self) (slice (strip l) a b)"
    by (auto simp: check_regex_def str_in_sublist split: option.splits)
  also have "sublist (slice (strip l) a b) (strip l)"
    by (rule sublist_slice)
  also have "sublist (strip l) l"
    by (rule sublist_strip)
  finally show ?thesis
    by (simp add: str_in_sublist)
qed

lemma get_frame_skip: "\<not> names_line name f \<Longrightarrow> get_frame name (f # fs) = get_frame name fs"
  by (auto simp: names_line_def split: option.splits list.splits)

lemma get_frame_here:
  "code_context f = Some (l # ls) \<Longrightarrow> str_in name l \<Longrightarrow> get_frame name (f # fs) = Inr l"
  by simp

lemma foo_fields:
  "hf_name foo = ''foo''" "hf_instance foo = PNone"
  "sync_callback foo = plain_def ''sync_foo'' [] (returns (PInt 1))"
  "async_callback foo = async_def ''async_foo'' [] (returns (PInt 2))"
  by (simp_all add: foo_def)

lemma own_frame_not_foo: "\<not> names_line ''foo'' own_frame"
  by code_simp

text \<open>
  \<^verbatim>\<open>_get_frame\<close> takes the first line, from the frame of \<^verbatim>\<open>__call__\<close> outwards, that holds
  the name. When it is the caller's line, the pattern on that line decides.
\<close>

lemma hybrid_call_dispatch:
  assumes "\<not> names_line (hf_name self) own"
    and "code_context caller = Some (line # below)"
  shows "(check_regex self (strip line) \<longrightarrow>
            hybrid_call self (Some (own # caller # outer)) (args, kwargs) r u =
            py_call (async_callback self)
              (if truthy (hf_instance self) then hf_instance self # args else args, kwargs) r u)
       \<and> (str_in (hf_name self) line \<and> \<not> check_regex self (strip line) \<longrightarrow>
            hybrid_call self (Some (own # caller # outer)) (args, kwargs) r u =
            py_call (sync_callback self)
              (if truthy (hf_instance self) then hf_instance self # args else args, kwargs) r u)"
proof -
  have gf: "get_frame (hf_name self) (own # caller # outer) = Inr line"
    if "str_in (hf_name self) line"
  proof -
    have "get_frame (hf_name self) (own # caller # outer) = get_frame (hf_name self) (caller # outer)"
      using assms(1) by (rule get_frame_skip)
    also have "\<dots> = Inr line"
      using assms(2) that by (rule get_frame_here)
    finally show ?thesis .
  qed
  have "str_in (hf_name self) line" if "check_regex self (strip line)"
    using that by (rule check_regex_names_line)
  then show ?thesis
    by (simp add: hybrid_call_def gf del: get_frame.simps)
qed

text \<open>
  When no frame's line holds the name, the call raises \<^verbatim>\<open>RuntimeError\<close>: so for the
  dispatcher \<^verbatim>\<open>foo\<close> called under another name, as \<^verbatim>\<open>bar()\<close>.
\<close>

lemma get_frame_none:
  "\<forall>f \<in> set frames. \<not> names_line name f \<Longrightarrow> get_frame name frames = Inl RuntimeError"
  by (induction frames) (auto simp: names_line_def split: option.splits list.splits)

lemma hybrid_call_no_line:
  "\<forall>f \<in> set frames. \<not> names_line (hf_name self) f \<Longrightarrow>
   hybrid_call self (Some frames) a r u = (Inl RuntimeError, u)"
  by (cases a) (simp add: hybrid_call_def get_frame_none del: get_frame.simps)

lemma hybrid_call_other_name:
  "hybrid_call foo (Some [own_frame, frame_of ''bar()'']) ([], []) None () = (Inl RuntimeError, ())"
proof -
  have "get_frame ''foo'' [own_frame, frame_of ''bar()''] = Inl RuntimeError"
    by code_simp
  then show ?thesis
    by (simp add: hybrid_call_def foo_fields del: get_frame.simps)
qed

text \<open>
  A word character need not be ASCII, nor a space: with the letter U+00E9 inside the
  awaited expression the pattern matches and the span holds the name, and \<open>strip\<close> takes
  U+00A0 and U+0085 off a line.
\<close>

lemma check_regex_latin:
  "check_regex foo (strip (''    x = await caf'' @ [CHR 0xE9] @ ''.foo()'' @ [CHR 0x0A]))"
  "strip ([CHR 0xA0] @ ''foo()'' @ [CHR 0x85, CHR 0x0A]) = ''foo()''"
  by code_simp+

text \<open>
  The search starts at the frame of \<^verbatim>\<open>__call__\<close> itself, which is executing line 67.
  That line has no \<^verbatim>\<open>await\<close>; a dispatcher whose name occurs in its text stops there and
  calls the sync callback, whatever the caller wrote.
\<close>

lemma own_line_no_match:
  "regex_search hybrid_regex
     (strip (''        code_context = self._get_frame(frame).strip()'' @ [CHR 0x0A])) = None"
  by code_simp

lemma hybrid_call_own_line:
  assumes "names_line (hf_name self) own_frame"
  shows "hybrid_call self (Some (own_frame # outer)) (args, kwargs) r u =
     py_call (sync_callback self)
       (if truthy (hf_instance self) then hf_instance self # args else args, kwargs) r u"
proof -
  let ?l = "''        code_context = self._get_frame(frame).strip()'' @ [CHR 0x0A]"
  have c: "code_context own_frame = Some [?l]"
    by (simp add: own_frame_def frame_of_def)
  with assms have "str_in (hf_name self) ?l"
    by (simp add: names_line_def)
  with c have "get_frame (hf_name self) (own_frame # outer) = Inr ?l"
    by (rule get_frame_here)
  moreover have "\<not> check_regex self (strip ?l)"
    using own_line_no_match by (simp add: check_regex_def)
  ultimately show ?thesis
    by (simp add: hybrid_call_def del: get_frame.simps)
qed

text \<open>The names that line 67 holds are everyday ones.\<close>

lemma own_frame_names:
  "names_line ''get'' own_frame"
  "names_line ''frame'' own_frame"
  "names_line ''self'' own_frame"
  "names_line ''strip'' own_frame"
  "names_line ''f'' own_frame"
  by code_simp+

lemma get_dispatcher_fields:
  "hf_name get_dispatcher = ''get''" "hf_instance get_dispatcher = PNone"
  "sync_callback get_dispatcher = plain_def ''sync_foo'' [] (returns (PInt 1))"
  "async_callback get_dispatcher = async_def ''async_foo'' [] (returns (PInt 2))"
  by (simp_all add: get_dispatcher_def foo_def)

text \<open>
  Claim C6 says that a call whose caller's source line matches \<^verbatim>\<open>await <name>(...)\<close> with
  the name \<open>n\<close> inside the matched span invokes the async callback and returns its
  result, and that a call whose caller's source line does not match invokes the sync
  callback. On the stack as \<^verbatim>\<open>__call__\<close> sees it, its own frame first, the code does
  this: (1) when line 67 of hybrid.py holds \<open>n\<close>, it calls the sync callback, also for an
  awaited call, against the claim; (2) when line 67 does not hold \<open>n\<close> and the caller's
  line matches with \<open>n\<close> in the span, it calls the async callback; (3) when the caller's
  line holds \<open>n\<close> and does not match so, it calls the sync callback. (The callbacks get
  the arguments of the call, after the bound instance if there is one.)
\<close>

theorem hybrid_call_real_stack:
  assumes "code_context caller = Some (line # below)"
  shows "(names_line (hf_name self) own_frame \<longrightarrow>
            hybrid_call self (Some (own_frame # caller # outer)) (args, kwargs) r u =
            py_call (sync_callback self)
              (if truthy (hf_instance self) then hf_instance self # args else args, kwargs) r u)
       \<and> (\<not> names_line (hf_name self) own_frame \<and> check_regex self (strip line) \<longrightarrow>
            hybrid_call self (Some (own_frame # caller # outer)) (args, kwargs) r u =
            py_call (async_callback self)
              (if truthy (hf_instance self) then hf_instance self # args else args, kwargs) r u)
       \<and> (str_in (hf_name self) line \<and> \<not> check_regex self (strip line) \<longrightarrow>
            hybrid_call self (Some (own_frame # caller # outer)) (args, kwargs) r u =
            py_call (sync_callback self)
              (if truthy (hf_instance self) then hf_instance self # args else args, kwargs) r u)"
proof (cases "names_line (hf_name self) own_frame")
  case True
  then show ?thesis
    by (simp add: hybrid_call_own_line)
next
  case False
  from hybrid_call_dispatch [OF False assms, of outer args kwargs r u] False show ?thesis
    by simp
qed

theorem hybrid_call_real_stack_witness:
  "code_context (frame_of ''    x = await get()'') = Some [''    x = await get()'' @ [CHR 0x0A]]
   \<and> names_line (hf_name get_dispatcher) own_frame
   \<and> check_regex get_dispatcher (strip (''    x = await get()'' @ [CHR 0x0A]))
   \<and> hybrid_call get_dispatcher (Some [own_frame, frame_of ''    x = await get()'']) ([], [])
        (Some 0) ()
       = (Inr (PInt 1), ())
   \<and> py_call (async_callback get_dispatcher) ([], []) (Some 0) ()
       = (Inr (PCoro (returns (PInt 2) ([], []))), ())
   \<and> code_context (frame_of ''    x = await foo()'') = Some [''    x = await foo()'' @ [CHR 0x0A]]
   \<and> \<not> names_line (hf_name foo) own_frame
   \<and> check_regex foo (strip (''    x = await foo()'' @ [CHR 0x0A]))
   \<and> hybrid_call foo (Some [own_frame, frame_of ''    x = await foo()'']) ([], []) (Some 0) ()
       = (Inr (PCoro (returns (PInt 2) ([], []))), ())
   \<and> await (PCoro (returns (PInt 2) ([], []))) (Some 0) () = (Inr (PInt 2), ())
   \<and> code_context (frame_of ''    x = foo()'') = Some [''    x = foo()'' @ [CHR 0x0A]]
   \<and> str_in (hf_name foo) (''    x = foo()'' @ [CHR 0x0A])
   \<and> \<not> check_regex foo (strip (''    x = foo()'' @ [CHR 0x0A]))
   \<and> hybrid_call foo (Some [own_frame, frame_of ''    x = foo()'']) ([], []) (Some 0) ()
       = (Inr (PInt 1), ())"
proof -
  have c0: "code_context (frame_of ''    x = await get()'') = Some [''    x = await get()'' @ [CHR 0x0A]]"
    and c1: "code_context (frame_of ''    x = await foo()'') = Some [''    x = await foo()'' @ [CHR 0x0A]]"
    and c2: "code_context (frame_of ''    x = foo()'') = Some [''    x = foo()'' @ [CHR 0x0A]]"
    by (simp_all add: frame_of_def)
  have own0: "names_line (hf_name get_dispatcher) own_frame"
    by (simp add: get_dispatcher_fields own_frame_names)
  have own: "\<not> names_line (hf_name foo) own_frame"
    by (simp add: foo_fields own_frame_not_foo)
  have m0: "check_regex get_dispatcher (strip (''    x = await get()'' @ [CHR 0x0A]))"
    by code_simp
  have m1: "check_regex foo (strip (''    x = await foo()'' @ [CHR 0x0A]))"
    by code_simp
  have m2: "\<not> check_regex foo (strip (''    x = foo()'' @ [CHR 0x0A]))"
    by code_simp
  have n2: "str_in (hf_name foo) (''    x = foo()'' @ [CHR 0x0A])"
    by code_simp
  have a0: "py_call (async_callback get_dispatcher) ([], []) (Some 0) ()
      = (Inr (PCoro (returns (PInt 2) ([], []))), ())"
    by (simp add: get_dispatcher_fields py_call_def async_def_def)
  have s0: "py_call (sync_callback get_dispatcher) ([], []) (Some 0) () = (Inr (PInt 1), ())"
    by (simp add: get_dispatcher_fields py_call_def plain_def_def returns_def)
  have a: "py_call (async_callback foo) ([], []) (Some 0) () = (Inr (PCoro (returns (PInt 2) ([], []))), ())"
    by (simp add: foo_fields py_call_def async_def_def)
  have s: "py_call (sync_callback foo) ([], []) (Some 0) () = (Inr (PInt 1), ())"
    by (simp add: foo_fields py_call_def plain_def_def returns_def)
  have w: "await (PCoro (returns (PInt 2) ([], []))) (Some 0) () = (Inr (PInt 2), ())"
    by (simp add: await_def returns_def)
  from hybrid_call_real_stack [OF c0, of get_dispatcher "[]" "[]" "[]" "Some 0" "()"] own0 s0
  have r0: "hybrid_call get_dispatcher (Some [own_frame, frame_of ''    x = await get()'']) ([], [])
      (Some 0) () = (Inr (PInt 1), ())"
    by (simp add: get_dispatcher_fields)
  from hybrid_call_real_stack [OF c1, of foo "[]" "[]" "[]" "Some 0" "()"] own m1 a
  have r1: "hybrid_call foo (Some [own_frame, frame_of ''    x = await foo()'']) ([], []) (Some 0) ()
       = (Inr (PCoro (returns (PInt 2) ([], []))), ())"
    by (simp add: foo_fields)
  from hybrid_call_real_stack [OF c2, of foo "[]" "[]" "[]" "Some 0" "()"] m2 n2 s
  have r2: "hybrid_call foo (Some [own_frame, frame_of ''    x = foo()'']) ([], []) (Some 0) ()
       = (Inr (PInt 1), ())"
    by (simp add: foo_fields)
  from c0 own0 m0 r0 a0 c1 own m1 r1 w c2 n2 m2 r2 show ?thesis
    by blast
qed

text \<open>
  Claim C9: constructing a \<^verbatim>\<open>HybridFunction\<close> from a sync callback and an async callback
  whose signatures declare different numbers of parameters raises \<^verbatim>\<open>TypeError\<close>.
\<close>

theorem hybrid_init_arity:
  "parameters sync_cb = Some ps \<Longrightarrow> parameters async_cb = Some qs \<Longrightarrow>
   length ps \<noteq> length qs \<Longrightarrow> hybrid_init name sync_cb async_cb = Inl TypeError"
  by (simp add: hybrid_init_def signature_def)

theorem hybrid_init_arity_witness:
  "parameters (plain_def ''sync'' [''a'', ''b''] (returns PNone) :: unit pyobj) = Some [''a'', ''b'']
   \<and> parameters (async_def ''async'' [''a''] (returns PNone) :: unit pyobj) = Some [''a'']
   \<and> length [''a'', ''b''] \<noteq> length [''a'']
   \<and> hybrid_init ''foo'' (plain_def ''sync'' [''a'', ''b''] (returns PNone) :: unit pyobj)
        (async_def ''async'' [''a''] (returns PNone)) = Inl TypeError"
proof -
  have p: "parameters (plain_def ''sync'' [''a'', ''b''] (returns PNone) :: unit pyobj) = Some [''a'', ''b'']"
    by (simp add: plain_def_def)
  have q: "parameters (async_def ''async'' [''a''] (returns PNone) :: unit pyobj) = Some [''a'']"
    by (simp add: async_def_def)
  have l: "length [''a'', ''b''] \<noteq> length [''a'']"
    by simp
  from hybrid_init_arity [OF p q l] p q l show ?thesis
    by blast
qed

text \<open>With as many parameters on both sides, the dispatcher is built, bound to nothing.\<close>

lemma hybrid_init_ok:
  "signature sync_cb = Inr ps \<Longrightarrow> signature async_cb = Inr qs \<Longrightarrow> length ps = length qs \<Longrightarrow>
   hybrid_init name sync_cb async_cb
     = Inr \<lparr>hf_name = name, sync_callback = sync_cb, async_callback = async_cb, hf_instance = PNone\<rparr>"
  by (simp add: hybrid_init_def)

lemma hybrid_get_fields:
  assumes "hybrid_get hf inst = Inr b"
  shows "b = \<lparr>hf_name = hf_name hf, sync_callback = sync_callback hf,
              async_callback = async_callback hf, hf_instance = inst\<rparr>"
  using assms by (auto simp: hybrid_get_def hybrid_init_def split: sum.splits if_splits)

lemma check_regex_name: "hf_name a = hf_name b \<Longrightarrow> check_regex a l = check_regex b l"
  by (simp add: check_regex_def split: option.splits)

text \<open>
  Claim C10: a dispatcher got from a class member through \<^verbatim>\<open>__get__\<close> for the instance
  \<open>inst\<close> passes \<open>inst\<close> as the first argument to the callback it picks only when \<open>inst\<close>
  is truthy; for an instance whose truth value is false (or \<open>None\<close>) the callback gets the
  arguments of the call alone.
\<close>

theorem hybrid_get_prepends_truthy:
  assumes "hybrid_get hf inst = Inr b"
    and "get_frame (hf_name hf) frames = Inr line"
  shows "hybrid_call b (Some frames) (args, kwargs) r u =
    py_call (if check_regex hf (strip line) then async_callback hf else sync_callback hf)
      (if truthy inst then inst # args else args, kwargs) r u"
proof -
  have b: "hf_name b = hf_name hf" "sync_callback b = sync_callback hf"
    "async_callback b = async_callback hf" "hf_instance b = inst"
    using hybrid_get_fields [OF assms(1)] by simp_all
  have "check_regex b (strip line) = check_regex hf (strip line)"
    using b(1) by (rule check_regex_name)
  then show ?thesis
    by (simp add: hybrid_call_def b assms(2))
qed

lemma guf_fields:
  "hf_name get_or_fetch_user = ''get_or_fetch_user''"
  "sync_callback get_or_fetch_user = plain_def ''get_user'' [''self''] count_args"
  "async_callback get_or_fetch_user = async_def ''fetch_user'' [''self''] count_args"
  by (simp_all add: get_or_fetch_user_def)

theorem hybrid_get_prepends_truthy_witness:
  "hybrid_get get_or_fetch_user (PObject 1 False) = Inr (get_or_fetch_user\<lparr>hf_instance := PObject 1 False\<rparr>)
   \<and> hybrid_get get_or_fetch_user (PObject 2 True) = Inr (get_or_fetch_user\<lparr>hf_instance := PObject 2 True\<rparr>)
   \<and> get_frame (hf_name get_or_fetch_user) [own_frame, frame_of ''    user = client.get_or_fetch_user()'']
       = Inr (''    user = client.get_or_fetch_user()'' @ [CHR 0x0A])
   \<and> hybrid_call (get_or_fetch_user\<lparr>hf_instance := PObject 1 False\<rparr>)
        (Some [own_frame, frame_of ''    user = client.get_or_fetch_user()'']) ([], []) None ()
       = (Inr (PInt 0), ())
   \<and> hybrid_call (get_or_fetch_user\<lparr>hf_instance := PObject 2 True\<rparr>)
        (Some [own_frame, frame_of ''    user = client.get_or_fetch_user()'']) ([], []) None ()
       = (Inr (PInt 1), ())"
proof -
  let ?frames = "[own_frame, frame_of ''    user = client.get_or_fetch_user()'']"
  let ?line = "''    user = client.get_or_fetch_user()'' @ [CHR 0x0A]"
  have g1: "hybrid_get get_or_fetch_user (PObject 1 False)
      = Inr (get_or_fetch_user\<lparr>hf_instance := PObject 1 False\<rparr>)"
    and g2: "hybrid_get get_or_fetch_user (PObject 2 True)
      = Inr (get_or_fetch_user\<lparr>hf_instance := PObject 2 True\<rparr>)"
    by (simp_all add: hybrid_get_def hybrid_init_def signature_def get_or_fetch_user_def
        plain_def_def async_def_def)
  have f: "get_frame (hf_name get_or_fetch_user) ?frames = Inr ?line"
    by code_simp
  have m: "\<not> check_regex get_or_fetch_user (strip ?line)"
    by code_simp
  have c0: "py_call (plain_def ''get_user'' [''self''] count_args) ([], []) None () = (Inr (PInt 0), ())"
    and c1: "py_call (plain_def ''get_user'' [''self''] count_args) ([PObject 2 True], []) None ()
      = (Inr (PInt 1), ())"
    by (simp_all add: py_call_def plain_def_def count_args_def)
  from hybrid_get_prepends_truthy [OF g1 f, of "[]" "[]" None "()"] m c0
  have r1: "hybrid_call (get_or_fetch_user\<lparr>hf_instance := PObject 1 False\<rparr>) (Some ?frames) ([], []) None ()
      = (Inr (PInt 0), ())"
    by (simp add: guf_fields)
  from hybrid_get_prepends_truthy [OF g2 f, of "[]" "[]" None "()"] m c1
  have r2: "hybrid_call (get_or_fetch_user\<lparr>hf_instance := PObject 2 True\<rparr>) (Some ?frames) ([], []) None ()
      = (Inr (PInt 1), ())"
    by (simp add: guf_fields)
  from g1 g2 f r1 r2 show ?thesis
    by blast
qed

end
